theory Spec2Isabelle
  imports Main "HOL-Library.Word"
begin

section \<open>The transaction factory of the integration test utilities\<close>

text \<open>
  The development embeds \<^verbatim>\<open>testutil/integration/evmos/factory/build.go\<close>.
  A Go function that returns \<^verbatim>\<open>(T, error)\<close> is a function into a pair
  whose second component is an \<open>error option\<close> (\<open>None\<close> is the nil error); a result
  of pointer or interface type is an \<open>option\<close> (\<open>None\<close> is nil).  Operations whose
  bodies are outside this file are fields of the factory record, and every call to one of
  them is appended to a call trace, so that the order and the number of calls can be stated.
\<close>

subsection \<open>Errors\<close>

text \<open>
  \<^verbatim>\<open>errors.New\<close> builds an error from a message; \<^verbatim>\<open>errorsmod.Wrap\<close>
  puts a description around an error and keeps the cause.
\<close>

datatype error = errorString string | wrappedError error string

definition errors_New :: "string \<Rightarrow> error" where
  "errors_New text = errorString text"

definition errorsmod_Wrap :: "error \<Rightarrow> string \<Rightarrow> error" where
  "errorsmod_Wrap err description = wrappedError err description"

subsection \<open>Data\<close>

type_synonym byte = "8 word"
type_synonym Address = "byte list"
type_synonym Hash = "byte list"

text \<open>
  A composite literal of an array type such as \<^verbatim>\<open>common.Hash{0}\<close> gives the listed
  elements and zero for the rest of the 32 bytes.
\<close>

definition HashLength :: nat where
  "HashLength = 32"

definition Hash_literal :: "byte list \<Rightarrow> Hash" where
  "Hash_literal bs = bs @ replicate (HashLength - length bs) 0"

record AccessTuple =
  Address :: Address
  StorageKeys :: "Hash list"

type_synonym AccessList = "AccessTuple list"

text \<open>
  Modelled from the spec: the declaration of \<^verbatim>\<open>evmtypes.EvmTxArgs\<close> is not in the
  sources.  The fields are those of the spec's TxTypeArgs (recipient, input payload, nonce,
  gas limit, gas price, max fee per gas, max priority fee per gas, access list, value); the
  four that the code reads or writes keep the code's names.
\<close>

record EvmTxArgs =
  Nonce :: "64 word"
  GasLimit :: "64 word"
  Input :: "byte list"
  GasFeeCap :: "int option"
  GasPrice :: "int option"
  Amount :: "int option"
  GasTipCap :: "int option"
  To :: "Address option"
  Accesses :: "AccessList option"

text \<open>The zero value \<^verbatim>\<open>evmtypes.EvmTxArgs{}\<close>.\<close>

definition EvmTxArgs_zero :: EvmTxArgs where
  "EvmTxArgs_zero =
     \<lparr>Nonce = 0, GasLimit = 0, Input = [], GasFeeCap = None, GasPrice = None,
      Amount = None, GasTipCap = None, To = None, Accesses = None\<rparr>"

text \<open>
  The transaction type tags of go-ethereum (\<^verbatim>\<open>core/types\<close>): an \<^verbatim>\<open>iota\<close>
  enumeration starting at the legacy type.
\<close>

definition LegacyTxType :: int where
  "LegacyTxType = 0"

definition AccessListTxType :: int where
  "AccessListTxType = 1"

definition DynamicFeeTxType :: int where
  "DynamicFeeTxType = 2"

definition big_NewInt :: "int \<Rightarrow> int option" where
  "big_NewInt x = Some x"

text \<open>
  \<^verbatim>\<open>evmtypes.TransactionArgs\<close> as the composite literal of
  \<^verbatim>\<open>EstimateGasLimit\<close> fills it: the four fields the literal names (the remaining
  fields of the struct stay at their zero value and are not modelled).  All four are
  pointers.
\<close>

record TransactionArgs =
  Data :: "byte list option"
  From :: "Address option"
  To_ :: "Address option"
  AccessList_ :: "AccessList option"

text \<open>
  \<^verbatim>\<open>cryptotypes.PrivKey\<close> is an interface of the Cosmos SDK.  The model keeps the key
  material and the bytes that \<^verbatim>\<open>privKey.PubKey().Address().Bytes()\<close> yields; the key is
  taken to be a usable (non-nil) key.
\<close>

record PrivKey =
  Key :: "byte list"
  PubKey_Address_Bytes :: "byte list"

definition AddressLength :: nat where
  "AddressLength = 20"

text \<open>
  \<^verbatim>\<open>common.BytesToAddress\<close> of go-ethereum: a slice longer than an address is cropped
  from the left, a shorter one is padded with zeros on the left.
\<close>

definition BytesToAddress :: "byte list \<Rightarrow> Address" where
  "BytesToAddress b =
     (let b' = (if length b > AddressLength then drop (length b - AddressLength) b else b)
      in replicate (AddressLength - length b') 0 @ b')"

text \<open>
  Modelled from the spec: the declaration of \<^verbatim>\<open>evmtypes.MsgEthereumTx\<close> is not in the
  sources.  The spec's signed transaction is a TxTypeArgs plus sender address, chain ID and
  a signature; the unsigned envelope is the same record with an empty signature.
\<close>

record MsgEthereumTx =
  TxArgs :: EvmTxArgs
  Sender :: "byte list"
  TxChainID :: "int option"
  Signature :: "byte list"

text \<open>The zero value \<^verbatim>\<open>evmtypes.MsgEthereumTx{}\<close>.\<close>

definition MsgEthereumTx_zero :: MsgEthereumTx where
  "MsgEthereumTx_zero =
     \<lparr>TxArgs = EvmTxArgs_zero, Sender = [], TxChainID = None, Signature = []\<rparr>"

text \<open>
  The responses of the query handler, with the fields the code reads.  Both are returned
  by pointer; \<^verbatim>\<open>BaseFee\<close> is itself a pointer to a big integer.
\<close>

record EstimateGasResponse =
  Gas :: "64 word"

record QueryBaseFeeResponse =
  BaseFee :: "int option"

definition BigInt :: "int \<Rightarrow> int option" where
  "BigInt i = Some i"

text \<open>
  The signer context of go-ethereum is determined by the chain ID it is made for; the
  model keeps the application of \<^verbatim>\<open>gethtypes.LatestSignerForChainID\<close> as a term.
\<close>

datatype Signer = LatestSignerForChainID "int option"

subsection \<open>The factory and its collaborators\<close>

text \<open>
  The operations that \<^verbatim>\<open>build.go\<close> calls and that are defined elsewhere are taken
  as parameters.  \<open>'w\<close> is the state of the world they act on (the chain behind the
  query handler, the signer); \<open>'t\<close> is \<^verbatim>\<open>signing.Tx\<close> and \<open>'c\<close> is
  \<^verbatim>\<open>core.Message\<close>, which the code only passes on.  Methods on values
  (\<^verbatim>\<open>ValidateBasic\<close>, \<^verbatim>\<open>AsMessage\<close>, \<^verbatim>\<open>json.Marshal\<close>) and the
  read-only network descriptor do not touch the world.
\<close>

record ('w, 't, 'c) IntegrationTxFactory =
  populateEvmTxArgs :: "Address \<Rightarrow> EvmTxArgs \<Rightarrow> 'w \<Rightarrow> (EvmTxArgs \<times> error option) \<times> 'w"
  buildMsgEthereumTx :: "EvmTxArgs \<Rightarrow> Address \<Rightarrow> MsgEthereumTx"
  SignMsgEthereumTx :: "PrivKey \<Rightarrow> MsgEthereumTx \<Rightarrow> 'w \<Rightarrow> (MsgEthereumTx \<times> error option) \<times> 'w"
  buildSignedTx :: "MsgEthereumTx \<Rightarrow> 'w \<Rightarrow> ('t option \<times> error option) \<times> 'w"
  grpcHandler_EstimateGas ::
    "byte list \<Rightarrow> 64 word \<Rightarrow> 'w \<Rightarrow> (EstimateGasResponse option \<times> error option) \<times> 'w"
  grpcHandler_GetBaseFee :: "'w \<Rightarrow> (QueryBaseFeeResponse option \<times> error option) \<times> 'w"
  network_GetEIP155ChainID :: "int option"
  json_Marshal :: "TransactionArgs \<Rightarrow> byte list \<times> error option"
  ValidateBasic :: "MsgEthereumTx \<Rightarrow> error option"
  AsMessage :: "MsgEthereumTx \<Rightarrow> Signer \<Rightarrow> int option \<Rightarrow> 'c option \<times> error option"
  config_DefaultGasCap :: "64 word"

text \<open>The calls to those operations, with their arguments.\<close>

datatype call =
    Call_populateEvmTxArgs Address EvmTxArgs
  | Call_SignMsgEthereumTx PrivKey MsgEthereumTx
  | Call_ValidateBasic MsgEthereumTx
  | Call_buildSignedTx MsgEthereumTx
  | Call_json_Marshal TransactionArgs
  | Call_EstimateGas "byte list" "64 word"
  | Call_GetBaseFee
  | Call_GetEIP155ChainID
  | Call_AsMessage MsgEthereumTx Signer "int option"

text \<open>A state is the trace of the calls made so far and the world.\<close>

type_synonym 'w st = "call list \<times> 'w"

definition invoke :: "call \<Rightarrow> ('w \<Rightarrow> 'a \<times> 'w) \<Rightarrow> 'w st \<Rightarrow> 'a \<times> 'w st" where
  "invoke c f s = (case f (snd s) of (r, w') \<Rightarrow> (r, (fst s @ [c], w')))"

definition invoke_pure :: "call \<Rightarrow> 'a \<Rightarrow> 'w st \<Rightarrow> 'a \<times> 'w st" where
  "invoke_pure c r s = (r, (fst s @ [c], snd s))"

text \<open>A nil dereference panics; a function that can panic returns an outcome.\<close>

datatype 'a outcome = Panic | Return 'a

subsection \<open>The functions of \<^verbatim>\<open>build.go\<close>\<close>

definition GenerateDefaultTxTypeArgs ::
  "('w, 't, 'c) IntegrationTxFactory \<Rightarrow> Address \<Rightarrow> int \<Rightarrow> 'w st
     \<Rightarrow> (EvmTxArgs \<times> error option) \<times> 'w st" where
  "GenerateDefaultTxTypeArgs tf sender txType s =
     (let defaultArgs = EvmTxArgs_zero in
      if txType = DynamicFeeTxType then
        invoke (Call_populateEvmTxArgs sender defaultArgs)
          (populateEvmTxArgs tf sender defaultArgs) s
      else if txType = AccessListTxType then
        (let defaultArgs = defaultArgs
               \<lparr>Accesses := Some [\<lparr>Address = sender, StorageKeys = [Hash_literal [0]]\<rparr>]\<rparr>;
             defaultArgs = defaultArgs\<lparr>GasPrice := big_NewInt 1000000000\<rparr>
         in invoke (Call_populateEvmTxArgs sender defaultArgs)
              (populateEvmTxArgs tf sender defaultArgs) s)
      else if txType = LegacyTxType then
        (let defaultArgs = defaultArgs\<lparr>GasPrice := big_NewInt 1000000000\<rparr>
         in invoke (Call_populateEvmTxArgs sender defaultArgs)
              (populateEvmTxArgs tf sender defaultArgs) s)
      else ((EvmTxArgs_zero, Some (errors_New ''tx type not supported'')), s))"

text \<open>
  \<^verbatim>\<open>EstimateGasLimit\<close> takes both arguments by pointer.  It reads the fields of
  \<^verbatim>\<open>txArgs\<close> and the field \<^verbatim>\<open>Gas\<close> of the response, so a nil
  \<^verbatim>\<open>txArgs\<close>, and a nil response that comes with a nil error, panic.
\<close>

definition EstimateGasLimit ::
  "('w, 't, 'c) IntegrationTxFactory \<Rightarrow> Address option \<Rightarrow> EvmTxArgs option \<Rightarrow> 'w st
     \<Rightarrow> ((64 word \<times> error option) \<times> 'w st) outcome" where
  "EstimateGasLimit tf from txArgs s =
     (case txArgs of
        None \<Rightarrow> Panic
      | Some a \<Rightarrow>
          (let targs = \<lparr>Data = Some (Input a), From = from, To_ = To a,
                        AccessList_ = Accesses a\<rparr>
           in case invoke_pure (Call_json_Marshal targs) (json_Marshal tf targs) s of
                ((args, err), s1) \<Rightarrow>
                  (case err of
                     Some e \<Rightarrow> Return ((0, Some (errorsmod_Wrap e ''failed to marshal tx args'')), s1)
                   | None \<Rightarrow>
                       (case invoke (Call_EstimateGas args (config_DefaultGasCap tf))
                               (grpcHandler_EstimateGas tf args (config_DefaultGasCap tf)) s1 of
                          ((res, err), s2) \<Rightarrow>
                            (case err of
                               Some e \<Rightarrow>
                                 Return ((0, Some (errorsmod_Wrap e ''failed to estimate gas'')), s2)
                             | None \<Rightarrow>
                                 (case res of
                                    None \<Rightarrow> Panic
                                  | Some r \<Rightarrow> Return ((Gas r, None), s2)))))))"

definition GenerateMsgEthereumTx ::
  "('w, 't, 'c) IntegrationTxFactory \<Rightarrow> PrivKey \<Rightarrow> EvmTxArgs \<Rightarrow> 'w st
     \<Rightarrow> (MsgEthereumTx \<times> error option) \<times> 'w st" where
  "GenerateMsgEthereumTx tf privKey txArgs s =
     (let fromAddr = BytesToAddress (PubKey_Address_Bytes privKey)
      in case invoke (Call_populateEvmTxArgs fromAddr txArgs)
                (populateEvmTxArgs tf fromAddr txArgs) s of
           ((txArgs', err), s1) \<Rightarrow>
             (case err of
                Some e \<Rightarrow>
                  ((MsgEthereumTx_zero, Some (errorsmod_Wrap e ''failed to populate tx args'')), s1)
              | None \<Rightarrow> ((buildMsgEthereumTx tf txArgs' fromAddr, None), s1)))"

definition GenerateSignedMsgEthereumTx ::
  "('w, 't, 'c) IntegrationTxFactory \<Rightarrow> PrivKey \<Rightarrow> EvmTxArgs \<Rightarrow> 'w st
     \<Rightarrow> (MsgEthereumTx \<times> error option) \<times> 'w st" where
  "GenerateSignedMsgEthereumTx tf privKey txArgs s =
     (case GenerateMsgEthereumTx tf privKey txArgs s of
        ((msgEthereumTx, err), s1) \<Rightarrow>
          (case err of
             Some e \<Rightarrow>
               ((MsgEthereumTx_zero, Some (errorsmod_Wrap e ''failed to create ethereum tx'')), s1)
           | None \<Rightarrow>
               invoke (Call_SignMsgEthereumTx privKey msgEthereumTx)
                 (SignMsgEthereumTx tf privKey msgEthereumTx) s1))"

definition GenerateSignedEthTx ::
  "('w, 't, 'c) IntegrationTxFactory \<Rightarrow> PrivKey \<Rightarrow> EvmTxArgs \<Rightarrow> 'w st
     \<Rightarrow> ('t option \<times> error option) \<times> 'w st" where
  "GenerateSignedEthTx tf privKey txArgs s =
     (case GenerateSignedMsgEthereumTx tf privKey txArgs s of
        ((signedMsg, err), s1) \<Rightarrow>
          (case err of
             Some e \<Rightarrow>
               ((None, Some (errorsmod_Wrap e ''failed to generate signed MsgEthereumTx'')), s1)
           | None \<Rightarrow>
               (case invoke_pure (Call_ValidateBasic signedMsg) (ValidateBasic tf signedMsg) s1 of
                  (err, s2) \<Rightarrow>
                    (case err of
                       Some e \<Rightarrow>
                         ((None, Some (errorsmod_Wrap e ''failed to validate transaction'')), s2)
                     | None \<Rightarrow>
                         invoke (Call_buildSignedTx signedMsg) (buildSignedTx tf signedMsg) s2))))"

text \<open>
  \<^verbatim>\<open>GenerateGethCoreMsg\<close> reads \<^verbatim>\<open>baseFeeResp.BaseFee\<close> through two pointers
  after the chain ID has been fetched; either being nil panics.
\<close>

definition GenerateGethCoreMsg ::
  "('w, 't, 'c) IntegrationTxFactory \<Rightarrow> PrivKey \<Rightarrow> EvmTxArgs \<Rightarrow> 'w st
     \<Rightarrow> (('c option \<times> error option) \<times> 'w st) outcome" where
  "GenerateGethCoreMsg tf privKey txArgs s =
     (case GenerateMsgEthereumTx tf privKey txArgs s of
        ((msg, err), s1) \<Rightarrow>
          (case err of
             Some e \<Rightarrow> Return ((None, Some (errorsmod_Wrap e ''failed to generate ethereum tx'')), s1)
           | None \<Rightarrow>
               (case invoke (Call_SignMsgEthereumTx privKey msg)
                       (SignMsgEthereumTx tf privKey msg) s1 of
                  ((signedMsg, err), s2) \<Rightarrow>
                    (case err of
                       Some e \<Rightarrow>
                         Return ((None, Some (errorsmod_Wrap e ''failed to sign ethereum tx'')), s2)
                     | None \<Rightarrow>
                         (case invoke Call_GetBaseFee (grpcHandler_GetBaseFee tf) s2 of
                            ((baseFeeResp, err), s3) \<Rightarrow>
                              (case err of
                                 Some e \<Rightarrow>
                                   Return ((None, Some (errorsmod_Wrap e ''failed to get base fee'')), s3)
                               | None \<Rightarrow>
                                   (case invoke_pure Call_GetEIP155ChainID
                                           (network_GetEIP155ChainID tf) s3 of
                                      (chainID, s4) \<Rightarrow>
                                        (let signer = LatestSignerForChainID chainID
                                         in case baseFeeResp of
                                              None \<Rightarrow> Panic
                                            | Some resp \<Rightarrow>
                                                (case BaseFee resp of
                                                   None \<Rightarrow> Panic
                                                 | Some bf \<Rightarrow>
                                                     Return
                                                       (invoke_pure
                                                          (Call_AsMessage signedMsg signer (BigInt bf))
                                                          (AsMessage tf signedMsg signer (BigInt bf))
                                                          s4))))))))))"

subsection \<open>Pipeline stages\<close>




subsection \<open>A concrete factory\<close>

text \<open>
  A factory for concrete runs.  The world counts the queries answered by the chain;
  population fills nonce and gas limit, signing attaches the chain ID and a signature,
  validation rejects a negative amount, and the two conversions keep the signed message.
\<close>

definition example_key :: PrivKey where
  "example_key = \<lparr>Key = [7], PubKey_Address_Bytes = [1]\<rparr>"

definition example_factory :: "(nat, MsgEthereumTx, MsgEthereumTx \<times> int option) IntegrationTxFactory" where
  "example_factory =
     \<lparr>populateEvmTxArgs = (\<lambda>sender a w. ((a\<lparr>Nonce := 7, GasLimit := 21000\<rparr>, None), Suc w)),
      buildMsgEthereumTx =
        (\<lambda>a fromAddr. \<lparr>TxArgs = a, Sender = fromAddr, TxChainID = None, Signature = []\<rparr>),
      SignMsgEthereumTx = (\<lambda>k m w. ((m\<lparr>TxChainID := Some 9000, Signature := Key k\<rparr>, None), w)),
      buildSignedTx = (\<lambda>m w. ((Some m, None), w)),
      grpcHandler_EstimateGas = (\<lambda>bz cap w. ((Some \<lparr>Gas = 21000\<rparr>, None), Suc w)),
      grpcHandler_GetBaseFee = (\<lambda>w. ((Some \<lparr>BaseFee = Some 7\<rparr>, None), Suc w)),
      network_GetEIP155ChainID = Some 9000,
      json_Marshal = (\<lambda>t. ([123, 125], None)),
      ValidateBasic =
        (\<lambda>m. if (case Amount (TxArgs m) of None \<Rightarrow> False | Some v \<Rightarrow> v < 0)
             then Some (errorString ''amount cannot be negative'') else None),
      AsMessage = (\<lambda>m sg bf. (Some (m, bf), None)),
      config_DefaultGasCap = 25000000\<rparr>"

text \<open>The envelope and the signed message that the concrete factory builds from the zero record.\<close>

definition example_msg :: MsgEthereumTx where
  "example_msg =
     \<lparr>TxArgs = EvmTxArgs_zero\<lparr>Nonce := 7, GasLimit := 21000\<rparr>, Sender = BytesToAddress [1],
      TxChainID = None, Signature = []\<rparr>"

definition example_signed_msg :: MsgEthereumTx where
  "example_signed_msg = example_msg\<lparr>TxChainID := Some 9000, Signature := [7]\<rparr>"

section \<open>Properties\<close>

subsection \<open>Default arguments per transaction type\<close>

lemma txtype_distinct:
  "LegacyTxType \<noteq> AccessListTxType" "LegacyTxType \<noteq> DynamicFeeTxType"
  "AccessListTxType \<noteq> DynamicFeeTxType" "AccessListTxType \<noteq> LegacyTxType"
  "DynamicFeeTxType \<noteq> LegacyTxType" "DynamicFeeTxType \<noteq> AccessListTxType"
  by (simp_all add: LegacyTxType_def AccessListTxType_def DynamicFeeTxType_def)

lemma zero_Hash_literal: "Hash_literal [0] = replicate 32 0"
  by (simp add: Hash_literal_def HashLength_def numeral_eq_Suc)

lemma GenerateDefaultTxTypeArgs_DynamicFee:
  "GenerateDefaultTxTypeArgs tf sender DynamicFeeTxType s =
     invoke (Call_populateEvmTxArgs sender EvmTxArgs_zero)
       (populateEvmTxArgs tf sender EvmTxArgs_zero) s"
  by (simp add: GenerateDefaultTxTypeArgs_def)

lemma GenerateDefaultTxTypeArgs_AccessList:
  "GenerateDefaultTxTypeArgs tf sender AccessListTxType s =
     invoke
       (Call_populateEvmTxArgs sender
          (EvmTxArgs_zero\<lparr>Accesses := Some [\<lparr>Address = sender, StorageKeys = [Hash_literal [0]]\<rparr>],
                          GasPrice := Some 1000000000\<rparr>))
       (populateEvmTxArgs tf sender
          (EvmTxArgs_zero\<lparr>Accesses := Some [\<lparr>Address = sender, StorageKeys = [Hash_literal [0]]\<rparr>],
                          GasPrice := Some 1000000000\<rparr>)) s"
  by (simp add: GenerateDefaultTxTypeArgs_def txtype_distinct big_NewInt_def Let_def)

lemma GenerateDefaultTxTypeArgs_Legacy:
  "GenerateDefaultTxTypeArgs tf sender LegacyTxType s =
     invoke (Call_populateEvmTxArgs sender (EvmTxArgs_zero\<lparr>GasPrice := Some 1000000000\<rparr>))
       (populateEvmTxArgs tf sender (EvmTxArgs_zero\<lparr>GasPrice := Some 1000000000\<rparr>)) s"
  by (simp add: GenerateDefaultTxTypeArgs_def txtype_distinct big_NewInt_def Let_def)

lemma GenerateDefaultTxTypeArgs_other:
  "txType \<noteq> LegacyTxType \<Longrightarrow> txType \<noteq> AccessListTxType \<Longrightarrow> txType \<noteq> DynamicFeeTxType \<Longrightarrow>
   GenerateDefaultTxTypeArgs tf sender txType s =
     ((EvmTxArgs_zero, Some (errorString ''tx type not supported'')), s)"
  by (simp add: GenerateDefaultTxTypeArgs_def errors_New_def)

text \<open>
  Claim C1.  With type Legacy or AccessList the arguments handed to the shared defaulting
  path carry the gas price 1e9; with type DynamicFee they carry no gas price, no fee cap and
  no tip cap.
\<close>

theorem GenerateDefaultTxTypeArgs_gas_price:
  "(txType = LegacyTxType \<or> txType = AccessListTxType \<longrightarrow>
      (\<exists>args. GasPrice args = Some 1000000000 \<and>
         GenerateDefaultTxTypeArgs tf sender txType s =
           invoke (Call_populateEvmTxArgs sender args) (populateEvmTxArgs tf sender args) s))
   \<and> (\<exists>args. GasPrice args = None \<and> GasFeeCap args = None \<and> GasTipCap args = None \<and>
         GenerateDefaultTxTypeArgs tf sender DynamicFeeTxType s =
           invoke (Call_populateEvmTxArgs sender args) (populateEvmTxArgs tf sender args) s)"
proof (intro conjI impI)
  assume "txType = LegacyTxType \<or> txType = AccessListTxType"
  then show "\<exists>args. GasPrice args = Some 1000000000 \<and>
         GenerateDefaultTxTypeArgs tf sender txType s =
           invoke (Call_populateEvmTxArgs sender args) (populateEvmTxArgs tf sender args) s"
  proof
    assume "txType = LegacyTxType"
    then show ?thesis
      using GenerateDefaultTxTypeArgs_Legacy [of tf sender s]
      by (intro exI [of _ "EvmTxArgs_zero\<lparr>GasPrice := Some 1000000000\<rparr>"]) simp
  next
    assume "txType = AccessListTxType"
    then show ?thesis
      using GenerateDefaultTxTypeArgs_AccessList [of tf sender s]
      by (intro exI [of _ "EvmTxArgs_zero\<lparr>Accesses := Some [\<lparr>Address = sender, StorageKeys = [Hash_literal [0]]\<rparr>],
                          GasPrice := Some 1000000000\<rparr>"]) simp
  qed
next
  show "\<exists>args. GasPrice args = None \<and> GasFeeCap args = None \<and> GasTipCap args = None \<and>
         GenerateDefaultTxTypeArgs tf sender DynamicFeeTxType s =
           invoke (Call_populateEvmTxArgs sender args) (populateEvmTxArgs tf sender args) s"
    using GenerateDefaultTxTypeArgs_DynamicFee [of tf sender s]
    by (intro exI [of _ EvmTxArgs_zero]) (simp add: EvmTxArgs_zero_def)
qed

theorem GenerateDefaultTxTypeArgs_gas_price_witness:
  "\<exists>args. GasPrice args = Some 1000000000 \<and>
     GenerateDefaultTxTypeArgs example_factory [1] LegacyTxType ([], 0) =
       ((args\<lparr>Nonce := 7, GasLimit := 21000\<rparr>, None), ([Call_populateEvmTxArgs [1] args], 1))"
proof -
  from GenerateDefaultTxTypeArgs_gas_price [of LegacyTxType example_factory "[1]" "([], 0)"]
  obtain args where "GasPrice args = Some 1000000000"
    and "GenerateDefaultTxTypeArgs example_factory [1] LegacyTxType ([], 0) =
           invoke (Call_populateEvmTxArgs [1] args)
             (populateEvmTxArgs example_factory [1] args) ([], 0)"
    by auto
  then show ?thesis
    by (intro exI [of _ args]) (simp add: invoke_def example_factory_def)
qed

text \<open>
  Claim C2.  With type AccessList the arguments handed to the shared defaulting path have
  an access list of one entry: the sender, with one storage key of 32 zero bytes.
\<close>

theorem GenerateDefaultTxTypeArgs_access_list:
  "\<exists>args. Accesses args = Some [\<lparr>Address = sender, StorageKeys = [replicate 32 0]\<rparr>] \<and>
     GenerateDefaultTxTypeArgs tf sender AccessListTxType s =
       invoke (Call_populateEvmTxArgs sender args) (populateEvmTxArgs tf sender args) s"
  using GenerateDefaultTxTypeArgs_AccessList [of tf sender s]
  by (intro exI [of _ "EvmTxArgs_zero\<lparr>Accesses := Some [\<lparr>Address = sender, StorageKeys = [Hash_literal [0]]\<rparr>],
                          GasPrice := Some 1000000000\<rparr>"])
     (simp add: zero_Hash_literal)

text \<open>
  Claim C3.  A type other than the three supported ones gives the error and the zero
  record, and leaves the state as it was: no call is added to the trace and the world is
  unchanged.
\<close>

theorem GenerateDefaultTxTypeArgs_unsupported:
  "txType \<noteq> LegacyTxType \<Longrightarrow> txType \<noteq> AccessListTxType \<Longrightarrow> txType \<noteq> DynamicFeeTxType \<Longrightarrow>
   GenerateDefaultTxTypeArgs tf sender txType s =
     ((EvmTxArgs_zero, Some (errors_New ''tx type not supported'')), s)"
  by (simp add: GenerateDefaultTxTypeArgs_other errors_New_def)

theorem GenerateDefaultTxTypeArgs_unsupported_witness:
  "GenerateDefaultTxTypeArgs example_factory [1] 3 ([], 0) =
     ((EvmTxArgs_zero, Some (errorString ''tx type not supported'')), ([], 0))"
  using GenerateDefaultTxTypeArgs_unsupported [of 3 example_factory "[1]" "([], 0)"]
  by (simp add: LegacyTxType_def AccessListTxType_def DynamicFeeTxType_def errors_New_def)

text \<open>
  Claim C10.  The function takes no argument record.  The record it hands to the shared
  defaulting path is determined by the sender and the type alone, for every factory and
  every state: it is the zero record but for the gas price and the access list, which
  carry the defaults of the type.
\<close>

theorem GenerateDefaultTxTypeArgs_fresh_record:
  "\<exists>args.
     Nonce args = 0 \<and> GasLimit args = 0 \<and> Input args = [] \<and> GasFeeCap args = None \<and>
     Amount args = None \<and> GasTipCap args = None \<and> To args = None \<and>
     GasPrice args = (if txType = DynamicFeeTxType then None else Some 1000000000) \<and>
     Accesses args =
       (if txType = AccessListTxType
        then Some [\<lparr>Address = sender, StorageKeys = [Hash_literal [0]]\<rparr>] else None) \<and>
     (\<forall>(tf :: ('w, 't, 'c) IntegrationTxFactory) s.
        txType = LegacyTxType \<or> txType = AccessListTxType \<or> txType = DynamicFeeTxType \<longrightarrow>
        GenerateDefaultTxTypeArgs tf sender txType s =
          invoke (Call_populateEvmTxArgs sender args) (populateEvmTxArgs tf sender args) s)"
proof -
  consider (dyn) "txType = DynamicFeeTxType" | (acc) "txType = AccessListTxType"
    | (other) "txType \<noteq> DynamicFeeTxType" "txType \<noteq> AccessListTxType"
    by blast
  then show ?thesis
  proof cases
    case dyn
    then show ?thesis
      by (intro exI [of _ EvmTxArgs_zero])
        (simp add: GenerateDefaultTxTypeArgs_DynamicFee txtype_distinct, simp add: EvmTxArgs_zero_def)
  next
    case acc
    then show ?thesis
      by (intro exI [of _ "EvmTxArgs_zero\<lparr>Accesses := Some [\<lparr>Address = sender, StorageKeys = [Hash_literal [0]]\<rparr>],
                          GasPrice := Some 1000000000\<rparr>"])
        (simp add: GenerateDefaultTxTypeArgs_AccessList txtype_distinct, simp add: EvmTxArgs_zero_def)
  next
    case other
    then show ?thesis
      by (intro exI [of _ "EvmTxArgs_zero\<lparr>GasPrice := Some 1000000000\<rparr>"])
        (simp add: GenerateDefaultTxTypeArgs_Legacy txtype_distinct, simp add: EvmTxArgs_zero_def)
  qed
qed

theorem GenerateDefaultTxTypeArgs_fresh_record_witness:
  "\<exists>args. Nonce args = 0 \<and> GasLimit args = 0 \<and> Input args = [] \<and> GasFeeCap args = None \<and>
     Amount args = None \<and> GasTipCap args = None \<and> To args = None \<and>
     GasPrice args = Some 1000000000 \<and>
     Accesses args = Some [\<lparr>Address = [1], StorageKeys = [replicate 32 0]\<rparr>] \<and>
     GenerateDefaultTxTypeArgs example_factory [1] AccessListTxType ([], 5) =
       ((args\<lparr>Nonce := 7, GasLimit := 21000\<rparr>, None), ([Call_populateEvmTxArgs [1] args], 6))"
proof -
  from GenerateDefaultTxTypeArgs_fresh_record [of AccessListTxType "[1]"]
  obtain args where a: "Nonce args = 0" "GasLimit args = 0" "Input args = []"
      "GasFeeCap args = None" "Amount args = None" "GasTipCap args = None" "To args = None"
      "GasPrice args = Some 1000000000"
      "Accesses args = Some [\<lparr>Address = [1], StorageKeys = [Hash_literal [0]]\<rparr>]"
    and r: "\<forall>(tf :: (nat, MsgEthereumTx, MsgEthereumTx \<times> int option) IntegrationTxFactory) s.
        GenerateDefaultTxTypeArgs tf [1] AccessListTxType s =
          invoke (Call_populateEvmTxArgs [1] args) (populateEvmTxArgs tf [1] args) s"
    by (auto simp: txtype_distinct)
  from r have "GenerateDefaultTxTypeArgs example_factory [1] AccessListTxType ([], 5) =
      invoke (Call_populateEvmTxArgs [1] args) (populateEvmTxArgs example_factory [1] args) ([], 5)"
    by blast
  with a show ?thesis
    by (intro exI [of _ args]) (simp add: invoke_def example_factory_def zero_Hash_literal)
qed

subsection \<open>Gas estimation\<close>

lemma EstimateGasLimit_marshal_error:
  "json_Marshal tf \<lparr>Data = Some (Input a), From = from, To_ = To a, AccessList_ = Accesses a\<rparr>
     = (bz, Some e) \<Longrightarrow>
   EstimateGasLimit tf from (Some a) (tr, w) =
     Return ((0, Some (wrappedError e ''failed to marshal tx args'')),
       (tr @ [Call_json_Marshal
                \<lparr>Data = Some (Input a), From = from, To_ = To a, AccessList_ = Accesses a\<rparr>], w))"
  by (simp add: EstimateGasLimit_def invoke_pure_def errorsmod_Wrap_def)

lemma EstimateGasLimit_estimate_error:
  "json_Marshal tf \<lparr>Data = Some (Input a), From = from, To_ = To a, AccessList_ = Accesses a\<rparr>
     = (bz, None) \<Longrightarrow>
   grpcHandler_EstimateGas tf bz (config_DefaultGasCap tf) w = ((res, Some e), w') \<Longrightarrow>
   EstimateGasLimit tf from (Some a) (tr, w) =
     Return ((0, Some (wrappedError e ''failed to estimate gas'')),
       (tr @ [Call_json_Marshal
                \<lparr>Data = Some (Input a), From = from, To_ = To a, AccessList_ = Accesses a\<rparr>,
              Call_EstimateGas bz (config_DefaultGasCap tf)], w'))"
  by (simp add: EstimateGasLimit_def invoke_pure_def invoke_def errorsmod_Wrap_def)



text \<open>
  Claim C6.  When serialization fails, the result is gas 0 and the error wrapped as
  "failed to marshal tx args"; the trace holds the serialization alone and the world is
  untouched, so the query handler was not invoked.  When the handler's estimation fails,
  the result is gas 0 and the error wrapped as "failed to estimate gas".  The two wrapped
  errors differ, whatever their causes.
\<close>

theorem EstimateGasLimit_failures:
  "(json_Marshal tf \<lparr>Data = Some (Input a), From = from, To_ = To a, AccessList_ = Accesses a\<rparr>
      = (bz, Some e) \<longrightarrow>
    EstimateGasLimit tf from (Some a) (tr, w) =
      Return ((0, Some (wrappedError e ''failed to marshal tx args'')),
        (tr @ [Call_json_Marshal
                 \<lparr>Data = Some (Input a), From = from, To_ = To a, AccessList_ = Accesses a\<rparr>], w)))
   \<and> (json_Marshal tf \<lparr>Data = Some (Input a), From = from, To_ = To a, AccessList_ = Accesses a\<rparr>
      = (bz, None) \<and>
      grpcHandler_EstimateGas tf bz (config_DefaultGasCap tf) w = ((res, Some e'), w') \<longrightarrow>
    EstimateGasLimit tf from (Some a) (tr, w) =
      Return ((0, Some (wrappedError e' ''failed to estimate gas'')),
        (tr @ [Call_json_Marshal
                 \<lparr>Data = Some (Input a), From = from, To_ = To a, AccessList_ = Accesses a\<rparr>,
               Call_EstimateGas bz (config_DefaultGasCap tf)], w')))
   \<and> wrappedError e ''failed to marshal tx args'' \<noteq> wrappedError e' ''failed to estimate gas''"
  by (simp add: EstimateGasLimit_marshal_error EstimateGasLimit_estimate_error)

theorem EstimateGasLimit_failures_witness:
  "EstimateGasLimit
     (example_factory\<lparr>json_Marshal := \<lambda>t. ([], Some (errorString ''json: unsupported value''))\<rparr>)
     (Some [1]) (Some EvmTxArgs_zero) ([], 0) =
     Return ((0, Some (wrappedError (errorString ''json: unsupported value'')
                         ''failed to marshal tx args'')),
       ([Call_json_Marshal
           \<lparr>Data = Some [], From = Some [1], To_ = None, AccessList_ = None\<rparr>], 0))
   \<and> EstimateGasLimit
     (example_factory\<lparr>grpcHandler_EstimateGas :=
        \<lambda>bz cap w. ((None, Some (errorString ''execution reverted'')), Suc w)\<rparr>)
     (Some [1]) (Some EvmTxArgs_zero) ([], 0) =
     Return ((0, Some (wrappedError (errorString ''execution reverted'')
                         ''failed to estimate gas'')),
       ([Call_json_Marshal
           \<lparr>Data = Some [], From = Some [1], To_ = None, AccessList_ = None\<rparr>,
         Call_EstimateGas [123, 125] 25000000], 1))"
  using EstimateGasLimit_failures
    [of "example_factory\<lparr>json_Marshal := \<lambda>t. ([], Some (errorString ''json: unsupported value''))\<rparr>"
        EvmTxArgs_zero "Some [1]" "[]" "errorString ''json: unsupported value''" "[]" 0]
    EstimateGasLimit_failures
    [of "example_factory\<lparr>grpcHandler_EstimateGas :=
        \<lambda>bz cap w. ((None, Some (errorString ''execution reverted'')), Suc w)\<rparr>"
        EvmTxArgs_zero "Some [1]" "[123, 125]" _ "[]" 0 None "errorString ''execution reverted''" 1]
  by (simp add: example_factory_def EvmTxArgs_zero_def)




subsection \<open>Building, signing, validating and converting\<close>

lemmas pipeline_defs =
  GenerateMsgEthereumTx_def GenerateSignedMsgEthereumTx_def GenerateSignedEthTx_def
  GenerateGethCoreMsg_def invoke_def invoke_pure_def errorsmod_Wrap_def Let_def

lemma GenerateMsgEthereumTx_cases:
  "GenerateMsgEthereumTx tf privKey txArgs (tr, w) = ((msg, err), (tr', w')) \<Longrightarrow>
   tr' = tr @ [Call_populateEvmTxArgs (BytesToAddress (PubKey_Address_Bytes privKey)) txArgs] \<and>
   ((\<exists>a e. populateEvmTxArgs tf (BytesToAddress (PubKey_Address_Bytes privKey)) txArgs w
              = ((a, Some e), w') \<and>
         msg = MsgEthereumTx_zero \<and> err = Some (wrappedError e ''failed to populate tx args''))
    \<or> (\<exists>a. populateEvmTxArgs tf (BytesToAddress (PubKey_Address_Bytes privKey)) txArgs w
              = ((a, None), w') \<and>
         msg = buildMsgEthereumTx tf a (BytesToAddress (PubKey_Address_Bytes privKey)) \<and>
         err = None))"
  by (auto simp: pipeline_defs split: prod.splits option.splits)

lemma GenerateSignedMsgEthereumTx_success:
  "GenerateSignedMsgEthereumTx tf privKey txArgs (tr, w) = ((signedMsg, None), (tr1, w1)) \<Longrightarrow>
   \<exists>msg. tr1 = tr @ [Call_populateEvmTxArgs (BytesToAddress (PubKey_Address_Bytes privKey)) txArgs,
                     Call_SignMsgEthereumTx privKey msg]"
  by (auto simp: pipeline_defs split: prod.splits option.splits)

lemmas example_defs =
  example_factory_def example_key_def example_msg_def example_signed_msg_def EvmTxArgs_zero_def

lemma example_GenerateSignedEthTx:
  "GenerateSignedEthTx example_factory example_key EvmTxArgs_zero ([], 0) =
     ((Some example_signed_msg, None),
      ([Call_populateEvmTxArgs (BytesToAddress [1]) EvmTxArgs_zero,
        Call_SignMsgEthereumTx example_key example_msg,
        Call_ValidateBasic example_signed_msg,
        Call_buildSignedTx example_signed_msg], 1))"
  by (simp add: pipeline_defs example_defs)


text \<open>
  Claim C5.  Once the message is signed without error, \<^verbatim>\<open>GenerateSignedEthTx\<close>
  validates it.  If validation fails, the result is a nil transaction and the error wrapped
  as "failed to validate transaction", and the trace ends with the validation: the
  conversion is not called.  If it passes, the result is that of the conversion.  A run
  that returns no error has validated the signed message with no error, and only then
  converted that same message.
\<close>

theorem GenerateSignedEthTx_validation:
  "(GenerateSignedMsgEthereumTx tf privKey txArgs s = ((signedMsg, None), (tr1, w1)) \<and>
    ValidateBasic tf signedMsg = Some e \<longrightarrow>
      GenerateSignedEthTx tf privKey txArgs s =
        ((None, Some (wrappedError e ''failed to validate transaction'')),
         (tr1 @ [Call_ValidateBasic signedMsg], w1)))
   \<and> (GenerateSignedMsgEthereumTx tf privKey txArgs s = ((signedMsg, None), (tr1, w1)) \<and>
      ValidateBasic tf signedMsg = None \<longrightarrow>
      GenerateSignedEthTx tf privKey txArgs s =
        invoke (Call_buildSignedTx signedMsg) (buildSignedTx tf signedMsg)
          (tr1 @ [Call_ValidateBasic signedMsg], w1))
   \<and> (GenerateSignedEthTx tf privKey txArgs s = ((tx, None), (tr', w')) \<longrightarrow>
      (\<exists>m msg tr1 w1.
          GenerateSignedMsgEthereumTx tf privKey txArgs s = ((m, None), (tr1, w1)) \<and>
          ValidateBasic tf m = None \<and>
          buildSignedTx tf m w1 = ((tx, None), w') \<and>
          tr' = fst s @
            [Call_populateEvmTxArgs (BytesToAddress (PubKey_Address_Bytes privKey)) txArgs,
             Call_SignMsgEthereumTx privKey msg, Call_ValidateBasic m, Call_buildSignedTx m]))"
proof (intro conjI impI)
  assume r: "GenerateSignedEthTx tf privKey txArgs s = ((tx, None), (tr', w'))"
  obtain m err tr1 w1 where
    g: "GenerateSignedMsgEthereumTx tf privKey txArgs s = ((m, err), (tr1, w1))"
    by (metis surj_pair)
  from r g have "err = None"
    by (auto simp: GenerateSignedEthTx_def split: option.splits)
  with g have g': "GenerateSignedMsgEthereumTx tf privKey txArgs (fst s, snd s) = ((m, None), (tr1, w1))"
    by simp
  from GenerateSignedMsgEthereumTx_success [OF g'] obtain msg where
    t: "tr1 = fst s @ [Call_populateEvmTxArgs (BytesToAddress (PubKey_Address_Bytes privKey)) txArgs,
                     Call_SignMsgEthereumTx privKey msg]"
    by blast
  from r g' have "ValidateBasic tf m = None \<and> buildSignedTx tf m w1 = ((tx, None), w') \<and>
      tr' = tr1 @ [Call_ValidateBasic m, Call_buildSignedTx m]"
    by (auto simp: GenerateSignedEthTx_def invoke_def invoke_pure_def
        split: option.splits prod.splits)
  with g' t show "\<exists>m msg tr1 w1.
          GenerateSignedMsgEthereumTx tf privKey txArgs s = ((m, None), (tr1, w1)) \<and>
          ValidateBasic tf m = None \<and>
          buildSignedTx tf m w1 = ((tx, None), w') \<and>
          tr' = fst s @
            [Call_populateEvmTxArgs (BytesToAddress (PubKey_Address_Bytes privKey)) txArgs,
             Call_SignMsgEthereumTx privKey msg, Call_ValidateBasic m, Call_buildSignedTx m]"
    by (intro exI [of _ m] exI [of _ msg] exI [of _ tr1] exI [of _ w1]) simp
qed (simp_all add: GenerateSignedEthTx_def invoke_pure_def errorsmod_Wrap_def)

theorem GenerateSignedEthTx_validation_witness:
  "GenerateSignedMsgEthereumTx example_factory example_key EvmTxArgs_zero ([], 0) =
     ((example_signed_msg, None),
      ([Call_populateEvmTxArgs (BytesToAddress [1]) EvmTxArgs_zero,
        Call_SignMsgEthereumTx example_key example_msg], 1))
   \<and> ValidateBasic example_factory example_signed_msg = None
   \<and> GenerateSignedEthTx example_factory example_key EvmTxArgs_zero ([], 0) =
     ((Some example_signed_msg, None),
      ([Call_populateEvmTxArgs (BytesToAddress [1]) EvmTxArgs_zero,
        Call_SignMsgEthereumTx example_key example_msg,
        Call_ValidateBasic example_signed_msg,
        Call_buildSignedTx example_signed_msg], 1))"
proof -
  have a: "GenerateSignedMsgEthereumTx example_factory example_key EvmTxArgs_zero ([], 0) =
     ((example_signed_msg, None),
      ([Call_populateEvmTxArgs (BytesToAddress [1]) EvmTxArgs_zero,
        Call_SignMsgEthereumTx example_key example_msg], 1))"
    by (simp add: pipeline_defs example_defs)
  have b: "ValidateBasic example_factory example_signed_msg = None"
    by (simp add: example_defs)
  from GenerateSignedEthTx_validation [THEN conjunct2, THEN conjunct1, THEN mp, OF conjI, OF a b]
  have "GenerateSignedEthTx example_factory example_key EvmTxArgs_zero ([], 0) =
     ((Some example_signed_msg, None),
      ([Call_populateEvmTxArgs (BytesToAddress [1]) EvmTxArgs_zero,
        Call_SignMsgEthereumTx example_key example_msg,
        Call_ValidateBasic example_signed_msg,
        Call_buildSignedTx example_signed_msg], 1))"
    by (simp add: invoke_def example_factory_def)
  with a b show ?thesis by simp
qed

text \<open>
  Claim C8.  After the message is built and signed, \<^verbatim>\<open>GenerateGethCoreMsg\<close> queries
  the base fee.  If the query fails, the result is a nil message and the error wrapped as
  "failed to get base fee".  If it answers with a base fee, the chain ID of the network is
  fetched and the signed message is converted with the signer for that chain ID and the
  queried base fee; the result is that of the conversion.
\<close>

theorem GenerateGethCoreMsg_base_fee:
  "(GenerateMsgEthereumTx tf privKey txArgs s = ((msg, None), (tr1, w1)) \<and>
    SignMsgEthereumTx tf privKey msg w1 = ((signedMsg, None), w2) \<and>
    grpcHandler_GetBaseFee tf w2 = ((resp, Some e), w3) \<longrightarrow>
      GenerateGethCoreMsg tf privKey txArgs s =
        Return ((None, Some (wrappedError e ''failed to get base fee'')),
          (tr1 @ [Call_SignMsgEthereumTx privKey msg, Call_GetBaseFee], w3)))
   \<and> (GenerateMsgEthereumTx tf privKey txArgs s = ((msg, None), (tr1, w1)) \<and>
      SignMsgEthereumTx tf privKey msg w1 = ((signedMsg, None), w2) \<and>
      grpcHandler_GetBaseFee tf w2 = ((Some r, None), w3) \<and> BaseFee r = Some bf \<longrightarrow>
      GenerateGethCoreMsg tf privKey txArgs s =
        Return
          (AsMessage tf signedMsg (LatestSignerForChainID (network_GetEIP155ChainID tf)) (Some bf),
           (tr1 @ [Call_SignMsgEthereumTx privKey msg, Call_GetBaseFee, Call_GetEIP155ChainID,
                   Call_AsMessage signedMsg
                     (LatestSignerForChainID (network_GetEIP155ChainID tf)) (Some bf)], w3)))"
  by (simp add: GenerateGethCoreMsg_def invoke_def invoke_pure_def errorsmod_Wrap_def BigInt_def
      Let_def)


theorem GenerateGethCoreMsg_base_fee_witness:
  "GenerateMsgEthereumTx example_factory example_key EvmTxArgs_zero ([], 0) =
     ((example_msg, None), ([Call_populateEvmTxArgs (BytesToAddress [1]) EvmTxArgs_zero], 1))
   \<and> SignMsgEthereumTx example_factory example_key example_msg 1 = ((example_signed_msg, None), 1)
   \<and> grpcHandler_GetBaseFee example_factory 1 = ((Some \<lparr>BaseFee = Some 7\<rparr>, None), 2)
   \<and> GenerateGethCoreMsg example_factory example_key EvmTxArgs_zero ([], 0) =
     Return ((Some (example_signed_msg, Some 7), None),
       ([Call_populateEvmTxArgs (BytesToAddress [1]) EvmTxArgs_zero,
         Call_SignMsgEthereumTx example_key example_msg,
         Call_GetBaseFee, Call_GetEIP155ChainID,
         Call_AsMessage example_signed_msg (LatestSignerForChainID (Some 9000)) (Some 7)], 2))"
proof -
  have a: "GenerateMsgEthereumTx example_factory example_key EvmTxArgs_zero ([], 0) =
     ((example_msg, None), ([Call_populateEvmTxArgs (BytesToAddress [1]) EvmTxArgs_zero], 1))"
    by (simp add: pipeline_defs example_defs)
  have b: "SignMsgEthereumTx example_factory example_key example_msg 1 = ((example_signed_msg, None), 1)"
    by (simp add: example_defs)
  have c: "grpcHandler_GetBaseFee example_factory 1 = ((Some \<lparr>BaseFee = Some 7\<rparr>, None), 2)"
    by (simp add: example_defs)
  have d: "BaseFee \<lparr>BaseFee = Some 7\<rparr> = Some 7"
    by simp
  from GenerateGethCoreMsg_base_fee [THEN conjunct2, THEN mp, OF conjI, OF a conjI, OF b conjI, OF c d]
  have "GenerateGethCoreMsg example_factory example_key EvmTxArgs_zero ([], 0) =
     Return ((Some (example_signed_msg, Some 7), None),
       ([Call_populateEvmTxArgs (BytesToAddress [1]) EvmTxArgs_zero,
         Call_SignMsgEthereumTx example_key example_msg,
         Call_GetBaseFee, Call_GetEIP155ChainID,
         Call_AsMessage example_signed_msg (LatestSignerForChainID (Some 9000)) (Some 7)], 2))"
    by (simp add: example_factory_def)
  with a b c show ?thesis by simp
qed














text \<open>
  Claim C9 as stated fails: when the final conversion returns a message together with an
  error, \<^verbatim>\<open>GenerateGethCoreMsg\<close> returns both.
\<close>

theorem GenerateGethCoreMsg_error_with_message:
  "GenerateGethCoreMsg
     (example_factory\<lparr>AsMessage := \<lambda>m sg bf. (Some (m, bf), Some (errorString ''invalid sender''))\<rparr>)
     example_key EvmTxArgs_zero ([], 0) =
     Return ((Some (example_signed_msg, Some 7), Some (errorString ''invalid sender'')),
       ([Call_populateEvmTxArgs (BytesToAddress [1]) EvmTxArgs_zero,
         Call_SignMsgEthereumTx example_key example_msg,
         Call_GetBaseFee, Call_GetEIP155ChainID,
         Call_AsMessage example_signed_msg (LatestSignerForChainID (Some 9000)) (Some 7)], 2))
   \<and> Some (errorString ''invalid sender'') \<noteq> None
   \<and> Some (example_signed_msg, Some (7 :: int)) \<noteq> None"
  by (simp add: pipeline_defs example_defs BigInt_def)

text \<open>
  Claim C9, amended.  An error of \<^verbatim>\<open>GenerateMsgEthereumTx\<close> comes with the zero
  message.  An error of \<^verbatim>\<open>GenerateSignedEthTx\<close> or of
  \<^verbatim>\<open>GenerateGethCoreMsg\<close> comes with a nil result, unless result and error are
  the pair that the final conversion returned.
\<close>

theorem error_excludes_result:
  "(GenerateMsgEthereumTx tf privKey txArgs s = ((msg, Some e), s') \<longrightarrow> msg = MsgEthereumTx_zero)
   \<and> (GenerateSignedEthTx tf privKey txArgs s = ((tx, Some e), (tr', w')) \<longrightarrow>
        tx = None \<or> (\<exists>m w2. buildSignedTx tf m w2 = ((tx, Some e), w')))
   \<and> (GenerateGethCoreMsg tf privKey txArgs s = Return ((cmsg, Some e), s'') \<longrightarrow>
        cmsg = None \<or> (\<exists>m sg bf. AsMessage tf m sg bf = (cmsg, Some e)))"
proof (intro conjI impI)
  assume "GenerateMsgEthereumTx tf privKey txArgs s = ((msg, Some e), s')"
  then show "msg = MsgEthereumTx_zero"
    by (auto simp: pipeline_defs split: prod.splits option.splits)
next
  assume "GenerateSignedEthTx tf privKey txArgs s = ((tx, Some e), (tr', w'))"
  then show "tx = None \<or> (\<exists>m w2. buildSignedTx tf m w2 = ((tx, Some e), w'))"
    by (fastforce simp: pipeline_defs split: prod.splits option.splits)
next
  assume "GenerateGethCoreMsg tf privKey txArgs s = Return ((cmsg, Some e), s'')"
  then show "cmsg = None \<or> (\<exists>m sg bf. AsMessage tf m sg bf = (cmsg, Some e))"
    by (fastforce simp: pipeline_defs split: prod.splits option.splits)
qed

theorem error_excludes_result_witness:
  "GenerateMsgEthereumTx
     (example_factory\<lparr>populateEvmTxArgs :=
        \<lambda>sender a w. ((a, Some (errorString ''account not found'')), Suc w)\<rparr>)
     example_key EvmTxArgs_zero ([], 0) =
     ((MsgEthereumTx_zero,
       Some (wrappedError (errorString ''account not found'') ''failed to populate tx args'')),
      ([Call_populateEvmTxArgs (BytesToAddress [1]) EvmTxArgs_zero], 1))"
proof -
  let ?tf = "example_factory\<lparr>populateEvmTxArgs :=
        \<lambda>sender a w. ((a, Some (errorString ''account not found'')), Suc w)\<rparr>"
  obtain msg where a: "GenerateMsgEthereumTx ?tf example_key EvmTxArgs_zero ([], 0) =
     ((msg, Some (wrappedError (errorString ''account not found'') ''failed to populate tx args'')),
      ([Call_populateEvmTxArgs (BytesToAddress [1]) EvmTxArgs_zero], 1))"
    by (simp add: pipeline_defs example_defs)
  from error_excludes_result [THEN conjunct1, THEN mp, OF a]
  have "msg = MsgEthereumTx_zero" .
  with a show ?thesis by simp
qed

end
